theory Spec2Isabelle
  imports Complex_Main "HOL-Library.Log_Nat"
begin

section \<open>Python values used by the compressor\<close>

text \<open>
  The script is Python: integers are unbounded (\<open>int\<close>), \<open>float\<close> is IEEE 754 binary64,
  and every arithmetic operation either yields a value or raises. Exceptions are values of
  \<open>py_error\<close>; a computation that may raise has type \<open>py_error + 'a\<close>.
\<close>

datatype py_error =
    ZeroDivisionError | OverflowError | ValueError | TypeError | KeyError | IndexError
  | AttributeError | UnboundLocalError | UnicodeEncodeError | OSError

definition ebind :: "'e + 'a \<Rightarrow> ('a \<Rightarrow> 'e + 'b) \<Rightarrow> 'e + 'b" where
  "ebind m f = (case m of Inl e \<Rightarrow> Inl e | Inr x \<Rightarrow> f x)"

subsection \<open>binary64 floating point\<close>

text \<open>
  A float is a finite binary64 number, given by its exact rational value, an infinity or
  NaN. The two zeros are identified: the script never observes the sign of a zero
  (dividing by either zero raises, and both are falsy and \<open><= 0\<close>).
\<close>

datatype pyfloat = Finite rat | PInf | NInf | NaN

definition round_half_even :: "rat \<Rightarrow> int" where
  "round_half_even x =
     (let f = \<lfloor>x\<rfloor>; r = x - of_int f
      in if r < 1 / 2 then f
         else if 1 / 2 < r then f + 1
         else if even f then f else f + 1)"

text \<open>\<open>ilog2 x\<close> is the binary exponent \<open>\<lfloor>log\<^sub>2 x\<rfloor>\<close> of a positive rational.\<close>

definition ilog2 :: "rat \<Rightarrow> int" where
  "ilog2 x =
     (let (p, q) = quotient_of x;
          k = int (floorlog 2 (nat p)) - int (floorlog 2 (nat q))
      in if 2 powi k \<le> x then k else k - 1)"

text \<open>
  Rounding to nearest, ties to even, with 53 significant bits and gradual underflow below
  \<open>2\<^sup>-\<^sup>1\<^sup>0\<^sup>2\<^sup>2\<close>: \<open>ulp_exponent a\<close> is the exponent of the last
  place of a positive \<open>a\<close>, and \<open>nearest a\<close> the multiple of that unit nearest to
  \<open>a\<close>. A magnitude that rounds to \<open>2\<^sup>1\<^sup>0\<^sup>2\<^sup>4\<close> overflows to an infinity.
\<close>

definition ulp_exponent :: "rat \<Rightarrow> int" where
  "ulp_exponent a = max (ilog2 a) (- 1022) - 52"

definition nearest :: "rat \<Rightarrow> rat" where
  "nearest a = of_int (round_half_even (a / 2 powi ulp_exponent a)) * 2 powi ulp_exponent a"

definition round64 :: "rat \<Rightarrow> pyfloat" where
  "round64 x =
     (if x = 0 then Finite 0
      else if 2 powi 1024 \<le> nearest \<bar>x\<bar> then (if 0 < x then PInf else NInf)
      else Finite (if 0 < x then nearest \<bar>x\<bar> else - nearest \<bar>x\<bar>))"

fun fmul :: "pyfloat \<Rightarrow> pyfloat \<Rightarrow> pyfloat" where
  "fmul NaN y = NaN"
| "fmul x NaN = NaN"
| "fmul (Finite a) (Finite b) = round64 (a * b)"
| "fmul (Finite a) PInf = (if a = 0 then NaN else if 0 < a then PInf else NInf)"
| "fmul (Finite a) NInf = (if a = 0 then NaN else if 0 < a then NInf else PInf)"
| "fmul PInf (Finite b) = (if b = 0 then NaN else if 0 < b then PInf else NInf)"
| "fmul NInf (Finite b) = (if b = 0 then NaN else if 0 < b then NInf else PInf)"
| "fmul PInf PInf = PInf"
| "fmul PInf NInf = NInf"
| "fmul NInf PInf = NInf"
| "fmul NInf NInf = PInf"

fun fsub :: "pyfloat \<Rightarrow> pyfloat \<Rightarrow> pyfloat" where
  "fsub NaN y = NaN"
| "fsub x NaN = NaN"
| "fsub (Finite a) (Finite b) = round64 (a - b)"
| "fsub (Finite a) PInf = NInf"
| "fsub (Finite a) NInf = PInf"
| "fsub PInf (Finite b) = PInf"
| "fsub NInf (Finite b) = NInf"
| "fsub PInf PInf = NaN"
| "fsub NInf NInf = NaN"
| "fsub PInf NInf = PInf"
| "fsub NInf PInf = NInf"

text \<open>The IEEE quotient for a divisor other than zero.\<close>

fun fquot :: "pyfloat \<Rightarrow> pyfloat \<Rightarrow> pyfloat" where
  "fquot NaN y = NaN"
| "fquot x NaN = NaN"
| "fquot (Finite a) (Finite b) = round64 (a / b)"
| "fquot (Finite a) PInf = Finite 0"
| "fquot (Finite a) NInf = Finite 0"
| "fquot PInf (Finite b) = (if 0 < b then PInf else NInf)"
| "fquot NInf (Finite b) = (if 0 < b then NInf else PInf)"
| "fquot PInf PInf = NaN"
| "fquot PInf NInf = NaN"
| "fquot NInf PInf = NaN"
| "fquot NInf NInf = NaN"

text \<open>Python's float division raises on a zero divisor before dividing.\<close>

definition fdiv :: "pyfloat \<Rightarrow> pyfloat \<Rightarrow> py_error + pyfloat" where
  "fdiv x y = (if y = Finite 0 then Inl ZeroDivisionError else Inr (fquot x y))"

text \<open>\<open>x <= y\<close> and \<open>x > y\<close> on floats: every comparison with NaN is false.\<close>

fun fle :: "pyfloat \<Rightarrow> pyfloat \<Rightarrow> bool" where
  "fle NaN y = False"
| "fle x NaN = False"
| "fle NInf y = True"
| "fle x PInf = True"
| "fle PInf y = False"
| "fle x NInf = False"
| "fle (Finite a) (Finite b) = (a \<le> b)"

fun flt :: "pyfloat \<Rightarrow> pyfloat \<Rightarrow> bool" where
  "flt NaN y = False"
| "flt x NaN = False"
| "flt PInf y = False"
| "flt x NInf = False"
| "flt NInf y = True"
| "flt x PInf = True"
| "flt (Finite a) (Finite b) = (a < b)"

text \<open>Truthiness of a float: only zero is falsy (NaN is truthy).\<close>

definition float_truthy :: "pyfloat \<Rightarrow> bool" where
  "float_truthy x = (x \<noteq> Finite 0)"

subsection \<open>Numbers: int and float, with Python's coercions\<close>

datatype pynum = PyInt int | PyFloat pyfloat

text \<open>Converting an int to a float rounds, and raises when the int is too large.\<close>

definition float_of_int :: "int \<Rightarrow> py_error + pyfloat" where
  "float_of_int n =
     (case round64 (of_int n) of Finite r \<Rightarrow> Inr (Finite r) | _ \<Rightarrow> Inl OverflowError)"

definition to_float :: "pynum \<Rightarrow> py_error + pyfloat" where
  "to_float x = (case x of PyInt n \<Rightarrow> float_of_int n | PyFloat f \<Rightarrow> Inr f)"

definition num_mul :: "pynum \<Rightarrow> pynum \<Rightarrow> py_error + pynum" where
  "num_mul x y =
     (case (x, y) of
        (PyInt a, PyInt b) \<Rightarrow> Inr (PyInt (a * b))
      | _ \<Rightarrow> ebind (to_float x) (\<lambda>a. ebind (to_float y) (\<lambda>b. Inr (PyFloat (fmul a b)))))"

definition num_sub :: "pynum \<Rightarrow> pynum \<Rightarrow> py_error + pynum" where
  "num_sub x y =
     (case (x, y) of
        (PyInt a, PyInt b) \<Rightarrow> Inr (PyInt (a - b))
      | _ \<Rightarrow> ebind (to_float x) (\<lambda>a. ebind (to_float y) (\<lambda>b. Inr (PyFloat (fsub a b)))))"

text \<open>
  True division \<open>/\<close>. On two ints the exact quotient is rounded once; otherwise both
  operands are converted first and the float division follows.
\<close>

definition int_truediv :: "int \<Rightarrow> int \<Rightarrow> py_error + pyfloat" where
  "int_truediv a b =
     (if b = 0 then Inl ZeroDivisionError
      else case round64 (of_int a / of_int b) of
             Finite r \<Rightarrow> Inr (Finite r)
           | _ \<Rightarrow> Inl OverflowError)"

definition num_truediv :: "pynum \<Rightarrow> pynum \<Rightarrow> py_error + pynum" where
  "num_truediv x y =
     (case (x, y) of
        (PyInt a, PyInt b) \<Rightarrow> ebind (int_truediv a b) (\<lambda>r. Inr (PyFloat r))
      | _ \<Rightarrow> ebind (to_float x) (\<lambda>a. ebind (to_float y) (\<lambda>b.
               ebind (fdiv a b) (\<lambda>r. Inr (PyFloat r)))))"

text \<open>\<open>math.floor\<close> and \<open>int\<close> return an int, and raise on NaN and on the infinities.\<close>

definition math_floor :: "pynum \<Rightarrow> py_error + int" where
  "math_floor x =
     (case x of
        PyInt n \<Rightarrow> Inr n
      | PyFloat (Finite a) \<Rightarrow> Inr \<lfloor>a\<rfloor>
      | PyFloat NaN \<Rightarrow> Inl ValueError
      | PyFloat _ \<Rightarrow> Inl OverflowError)"

definition py_int :: "pynum \<Rightarrow> py_error + int" where
  "py_int x =
     (case x of
        PyInt n \<Rightarrow> Inr n
      | PyFloat (Finite a) \<Rightarrow> Inr (if 0 \<le> a then \<lfloor>a\<rfloor> else \<lceil>a\<rceil>)
      | PyFloat NaN \<Rightarrow> Inl ValueError
      | PyFloat _ \<Rightarrow> Inl OverflowError)"

section \<open>Configuration\<close>

definition TARGET_BYTES :: int where "TARGET_BYTES = 8 * 1024 * 1024"
definition TARGET_BITS :: int where "TARGET_BITS = TARGET_BYTES * 8"
definition AUDIO_BITRATE :: int where "AUDIO_BITRATE = 96000"
definition MIN_VIDEO_BITRATE :: int where "MIN_VIDEO_BITRATE = 80000"
definition SAFETY_MARGIN :: pyfloat where "SAFETY_MARGIN = round64 (3 / 100)"
definition MAX_ATTEMPTS :: nat where "MAX_ATTEMPTS = 3"

definition ENCODER_PRIORITY :: "(string \<times> string) list" where
  "ENCODER_PRIORITY =
     [(''hevc_nvenc'', ''p5''), (''hevc_qsv'', ''medium''), (''libx265'', ''veryfast'')]"

section \<open>Video metadata\<close>

record VideoInfo =
  duration :: pyfloat
  has_audio :: bool
  width :: int
  height :: int
  bitrate :: int

section \<open>Bitrate planner\<close>

definition calculate_target_bitrate :: "VideoInfo \<Rightarrow> py_error + int" where
  "calculate_target_bitrate info =
     ebind (if has_audio info
            then num_mul (PyInt AUDIO_BITRATE) (PyFloat (duration info))
            else Inr (PyInt 0)) (\<lambda>audio_bits.
     ebind (num_sub (PyInt 1) (PyFloat SAFETY_MARGIN)) (\<lambda>keep.
     ebind (num_mul (PyInt TARGET_BITS) keep) (\<lambda>budget.
     ebind (num_sub budget audio_bits) (\<lambda>available_bits.
     ebind (num_truediv available_bits (PyFloat (duration info))) (\<lambda>video_bitrate.
     ebind (num_truediv video_bitrate (PyInt 1000)) (\<lambda>thousands.
     ebind (math_floor thousands) (\<lambda>floored.
     Inr (max MIN_VIDEO_BITRATE (floored * 1000)))))))))"

section \<open>The outside world\<close>

text \<open>
  The script talks to \<open>ffprobe\<close>, \<open>ffmpeg\<close>, the file system and the console. Each
  answer of the outside is a field of \<open>world\<close>; the functions below are the script's
  own logic over an arbitrary world.
\<close>

subsection \<open>Decoded JSON, as Python objects\<close>

datatype json =
    JNull | JBool bool | JInt int | JFloat pyfloat | JStr string
  | JArr "json list" | JObj "(string \<times> json) list"

text \<open>\<open>needle in haystack\<close> on strings.\<close>

fun str_contains :: "string \<Rightarrow> string \<Rightarrow> bool" where
  "str_contains needle [] = (needle = [])"
| "str_contains needle (c # cs) =
     (take (length needle) (c # cs) = needle \<or> str_contains needle cs)"

text \<open>\<open>key in x\<close> for a string key.\<close>

fun py_contains :: "string \<Rightarrow> json \<Rightarrow> py_error + bool" where
  "py_contains key (JObj kvs) = Inr (map_of kvs key \<noteq> None)"
| "py_contains key (JArr xs) = Inr (List.member xs (JStr key))"
| "py_contains key (JStr s) = Inr (str_contains key s)"
| "py_contains key x = Inl TypeError"

text \<open>\<open>x[key]\<close> for a string key, and \<open>x[0]\<close>.\<close>

fun py_getitem :: "json \<Rightarrow> string \<Rightarrow> py_error + json" where
  "py_getitem (JObj kvs) key = (case map_of kvs key of Some v \<Rightarrow> Inr v | None \<Rightarrow> Inl KeyError)"
| "py_getitem x key = Inl TypeError"

fun py_getitem0 :: "json \<Rightarrow> py_error + json" where
  "py_getitem0 (JArr []) = Inl IndexError"
| "py_getitem0 (JArr (x # xs)) = Inr x"
| "py_getitem0 (JStr []) = Inl IndexError"
| "py_getitem0 (JStr (c # cs)) = Inr (JStr [c])"
| "py_getitem0 (JObj kvs) = Inl KeyError"
| "py_getitem0 x = Inl TypeError"

text \<open>\<open>x.get(key, default)\<close>: only a dict has the method.\<close>

fun py_get :: "json \<Rightarrow> string \<Rightarrow> json \<Rightarrow> py_error + json" where
  "py_get (JObj kvs) key dflt = Inr (case map_of kvs key of Some v \<Rightarrow> v | None \<Rightarrow> dflt)"
| "py_get x key dflt = Inl AttributeError"

fun py_len :: "json \<Rightarrow> py_error + int" where
  "py_len (JArr xs) = Inr (int (length xs))"
| "py_len (JStr s) = Inr (int (length s))"
| "py_len (JObj kvs) = Inr (int (length kvs))"
| "py_len x = Inl TypeError"

fun py_truthy :: "json \<Rightarrow> bool" where
  "py_truthy JNull = False"
| "py_truthy (JBool b) = b"
| "py_truthy (JInt n) = (n \<noteq> 0)"
| "py_truthy (JFloat f) = float_truthy f"
| "py_truthy (JStr s) = (s \<noteq> [])"
| "py_truthy (JArr xs) = (xs \<noteq> [])"
| "py_truthy (JObj kvs) = (kvs \<noteq> [])"

text \<open>A line written by \<open>print\<close>.\<close>

datatype message = UsingEncoder string | ErrorGettingVideoInfo py_error

text \<open>The command line of one encode, and what \<open>notify\<close> is told.\<close>

record encode_cmd =
  vf :: string
  c_v :: string
  preset_v :: string
  audio :: bool
  b_v :: int
  maxrate :: int
  bufsize :: int

datatype notification =
    CouldNotAnalyze | EncodingFailed nat | OutputNotCreated
  | CompressionComplete pyfloat | CannotReduceFurther pyfloat | TargetMissed pyfloat
  | FileNotFound | FFmpegNotFound | Starting

datatype event = Notified notification | Encoded nat encode_cmd

record world =
  argv :: "string list"
  isfile :: "string \<Rightarrow> bool"
  beside_interpreter :: "string \<Rightarrow> string option"
  which :: "string \<Rightarrow> string option"
  video_query :: "py_error + json"
  audio_query :: "py_error + json"
  str_to_float :: "string \<Rightarrow> pyfloat option"
  str_to_int :: "string \<Rightarrow> int option"
  encoders_query :: "py_error + string"
  print_raises :: "message \<Rightarrow> py_error option"
  encode_ok :: "nat \<Rightarrow> encode_cmd \<Rightarrow> bool"
  output_exists :: "nat \<Rightarrow> bool"
  output_size :: "nat \<Rightarrow> nat"

text \<open>
  \<open>video_query\<close> and \<open>audio_query\<close> are the decoded outputs of the two \<open>ffprobe\<close>
  runs (\<open>Inl\<close> when the run or \<open>json.loads\<close> raises); \<open>str_to_float\<close> and
  \<open>str_to_int\<close> are the builtins \<open>float\<close> and \<open>int\<close> on a string (\<open>None\<close> when they
  raise \<open>ValueError\<close>); \<open>encoders_query\<close> is the output of \<open>ffmpeg -encoders\<close>;
  \<open>encode_ok\<close>, \<open>output_exists\<close> and \<open>output_size\<close> answer for the attempt of the given
  number; \<open>beside_interpreter name\<close> is the path of \<open>name.exe\<close> next to the interpreter
  when that file exists.
\<close>

text \<open>\<open>float(x)\<close> and \<open>int(x)\<close> on a decoded value.\<close>

fun py_float :: "world \<Rightarrow> json \<Rightarrow> py_error + pyfloat" where
  "py_float w (JInt n) = float_of_int n"
| "py_float w (JFloat f) = Inr f"
| "py_float w (JBool b) = Inr (Finite (if b then 1 else 0))"
| "py_float w (JStr s) = (case str_to_float w s of Some f \<Rightarrow> Inr f | None \<Rightarrow> Inl ValueError)"
| "py_float w x = Inl TypeError"

fun py_int_of :: "world \<Rightarrow> json \<Rightarrow> py_error + int" where
  "py_int_of w (JInt n) = Inr n"
| "py_int_of w (JFloat f) = py_int (PyFloat f)"
| "py_int_of w (JBool b) = Inr (if b then 1 else 0)"
| "py_int_of w (JStr s) = (case str_to_int w s of Some n \<Rightarrow> Inr n | None \<Rightarrow> Inl ValueError)"
| "py_int_of w x = Inl TypeError"

text \<open>\<open>a and b\<close> in a condition: \<open>b\<close> is evaluated only when \<open>a\<close> is true.\<close>

definition eand :: "py_error + bool \<Rightarrow> py_error + bool \<Rightarrow> py_error + bool" where
  "eand a b = ebind a (\<lambda>x. if x then b else Inr False)"

section \<open>Tool lookup\<close>

definition locate_tool :: "world \<Rightarrow> string \<Rightarrow> string option" where
  "locate_tool w name =
     (case beside_interpreter w name of
        Some candidate \<Rightarrow> Some candidate
      | None \<Rightarrow>
          (case which w name of
             Some p \<Rightarrow> if p \<noteq> [] then Some p else which w (name @ ''.exe'')
           | None \<Rightarrow> which w (name @ ''.exe'')))"

section \<open>Metadata prober\<close>

text \<open>The duration, from the first video stream or else from the container.\<close>

definition probed_duration :: "world \<Rightarrow> json \<Rightarrow> py_error + pyfloat option" where
  "probed_duration w data =
     ebind (eand (py_contains ''streams'' data)
             (eand (ebind (py_getitem data ''streams'') (\<lambda>s. Inr (py_truthy s)))
                   (ebind (py_getitem data ''streams'') (\<lambda>s. ebind (py_getitem0 s)
                      (py_contains ''duration''))))) (\<lambda>in_stream.
     if in_stream
     then ebind (py_getitem data ''streams'') (\<lambda>s. ebind (py_getitem0 s) (\<lambda>s0.
          ebind (py_getitem s0 ''duration'') (\<lambda>d. ebind (py_float w d) (\<lambda>f. Inr (Some f)))))
     else ebind (eand (py_contains ''format'' data)
                 (ebind (py_getitem data ''format'') (py_contains ''duration''))) (\<lambda>in_format.
          if in_format
          then ebind (py_getitem data ''format'') (\<lambda>fm.
               ebind (py_getitem fm ''duration'') (\<lambda>d. ebind (py_float w d) (\<lambda>f. Inr (Some f))))
          else Inr None))"

text \<open>
  The body of the \<open>try\<close> block: \<open>Inr None\<close> is the early \<open>return None\<close>, taken when
  \<open>not duration or duration <= 0\<close> (\<open>not duration\<close> holds for \<open>None\<close> and for zero).
\<close>

definition probe_body :: "world \<Rightarrow> py_error + VideoInfo option" where
  "probe_body w =
     ebind (video_query w) (\<lambda>data.
     ebind (probed_duration w data) (\<lambda>probed.
     case probed of
       None \<Rightarrow> Inr None
     | Some d \<Rightarrow>
       if \<not> float_truthy d \<or> fle d (Finite 0) then Inr None
       else
         ebind (py_getitem data ''streams'') (\<lambda>s. ebind (py_getitem0 s) (\<lambda>stream.
         ebind (ebind (py_get stream ''width'' (JInt 1920)) (py_int_of w)) (\<lambda>wd.
         ebind (ebind (py_get stream ''height'' (JInt 1080)) (py_int_of w)) (\<lambda>ht.
         ebind (ebind (py_get stream ''bit_rate'' (JInt 0)) (py_int_of w)) (\<lambda>br.
         ebind (audio_query w) (\<lambda>a.
         ebind (eand (py_contains ''streams'' a)
                 (ebind (py_getitem a ''streams'') (\<lambda>s. ebind (py_len s) (\<lambda>n. Inr (0 < n)))))
           (\<lambda>au.
         Inr (Some \<lparr>duration = d, has_audio = au, width = wd, height = ht,
                    bitrate = br\<rparr>))))))))))"

text \<open>
  \<open>except Exception\<close> prints the error and returns \<open>None\<close>; when that \<open>print\<close>
  raises, the exception leaves the function.
\<close>

definition get_video_info :: "world \<Rightarrow> py_error + VideoInfo option" where
  "get_video_info w =
     (case probe_body w of
        Inr r \<Rightarrow> Inr r
      | Inl e \<Rightarrow>
          (case print_raises w (ErrorGettingVideoInfo e) of
             None \<Rightarrow> Inr None
           | Some e' \<Rightarrow> Inl e'))"

section \<open>Encoder selector\<close>

text \<open>
  The \<open>for\<close> loop over \<open>ENCODER_PRIORITY\<close> inside the \<open>try\<close> block: \<open>Inr None\<close> when
  the loop ends without a match, \<open>Inl\<close> when the \<open>print\<close> of the match raises.
\<close>

fun first_available :: "world \<Rightarrow> string \<Rightarrow> (string \<times> string) list
    \<Rightarrow> py_error + (string \<times> string) option" where
  "first_available w available [] = Inr None"
| "first_available w available ((codec, preset) # rest) =
     (if str_contains codec available
      then (case print_raises w (UsingEncoder codec) of
              None \<Rightarrow> Inr (Some (codec, preset))
            | Some e \<Rightarrow> Inl e)
      else first_available w available rest)"

definition detect_encoder :: "world \<Rightarrow> string \<times> string" where
  "detect_encoder w =
     (case ebind (encoders_query w) (\<lambda>available. first_available w available ENCODER_PRIORITY) of
        Inr (Some found) \<Rightarrow> found
      | _ \<Rightarrow> (''libx265'', ''veryfast''))"

section \<open>Scaling policy\<close>

text \<open>\<open>str(n)\<close> for an int.\<close>

fun digits :: "nat \<Rightarrow> string" where
  "digits n =
     (if n < 10 then [char_of (48 + n)] else digits (n div 10) @ [char_of (48 + n mod 10)])"

definition py_str :: "int \<Rightarrow> string" where
  "py_str n = (if n < 0 then CHR ''-'' # digits (nat (- n)) else digits (nat n))"

definition get_scale_filter :: "VideoInfo \<Rightarrow> string" where
  "get_scale_filter info =
     (let target_w = 1920; target_h = 1080
      in if width info \<le> target_w \<and> height info \<le> target_h
         then ''scale=trunc(iw/2)*2:trunc(ih/2)*2''
         else ''scale='' @ py_str target_w @ '':'' @ py_str target_h
              @ '':force_original_aspect_ratio=decrease:force_divisible_by=2'')"

section \<open>Convergence loop\<close>

text \<open>
  The corrective step of an over-budget attempt:
  \<open>scale_factor = (TARGET_BYTES / out_size) * 0.95\<close> and
  \<open>new_bitrate = max(MIN_VIDEO_BITRATE, int(video_bitrate * scale_factor))\<close>.
\<close>

definition corrective_bitrate :: "int \<Rightarrow> int \<Rightarrow> py_error + int" where
  "corrective_bitrate video_bitrate out_size =
     ebind (num_truediv (PyInt TARGET_BYTES) (PyInt out_size)) (\<lambda>ratio.
     ebind (num_mul ratio (PyFloat (round64 (95 / 100)))) (\<lambda>scale_factor.
     ebind (num_mul (PyInt video_bitrate) scale_factor) (\<lambda>scaled.
     ebind (py_int scaled) (\<lambda>truncated.
     Inr (max MIN_VIDEO_BITRATE truncated)))))"

text \<open>
  The command of one attempt: \<open>-b:v video_bitrate\<close>,
  \<open>-maxrate int(video_bitrate * 1.5)\<close>, \<open>-bufsize int(video_bitrate * 2)\<close>.
\<close>

definition encode_command ::
  "string \<Rightarrow> string \<Rightarrow> string \<Rightarrow> bool \<Rightarrow> int \<Rightarrow> py_error + encode_cmd" where
  "encode_command scale_filter codec preset with_audio video_bitrate =
     ebind (ebind (num_mul (PyInt video_bitrate) (PyFloat (round64 (3 / 2)))) py_int) (\<lambda>mx.
     ebind (ebind (num_mul (PyInt video_bitrate) (PyInt 2)) py_int) (\<lambda>buf.
     Inr \<lparr>vf = scale_filter, c_v = codec, preset_v = preset, audio = with_audio,
          b_v = video_bitrate, maxrate = mx, bufsize = buf\<rparr>))"

definition emit :: "event \<Rightarrow> event list \<times> 'a \<Rightarrow> event list \<times> 'a" where
  "emit ev r = (ev # fst r, snd r)"

text \<open>
  The \<open>for attempt in range(1, MAX_ATTEMPTS + 1)\<close> loop, from the attempt of the given
  number on, and the code after it. \<open>size_mb\<close> is the value left by the previous
  iteration. Every call of \<open>run_encode\<close> is recorded as an \<open>Encoded\<close> event.
\<close>

function compress_loop ::
  "world \<Rightarrow> (int \<Rightarrow> py_error + encode_cmd) \<Rightarrow> nat \<Rightarrow> int \<Rightarrow> pyfloat option
     \<Rightarrow> event list \<times> (py_error + bool)" where
  "compress_loop w build attempt video_bitrate size_mb =
     (if MAX_ATTEMPTS < attempt then
        (case size_mb of
           None \<Rightarrow> ([], Inl UnboundLocalError)
         | Some mb \<Rightarrow> ([Notified (TargetMissed mb)], Inr False))
      else
        (case build video_bitrate of
           Inl e \<Rightarrow> ([], Inl e)
         | Inr cmd \<Rightarrow>
             emit (Encoded attempt cmd)
               (if \<not> encode_ok w attempt cmd then
                  ([Notified (EncodingFailed attempt)], Inr False)
                else if \<not> output_exists w attempt then
                  ([Notified OutputNotCreated], Inr False)
                else
                  (case int_truediv (int (output_size w attempt)) (1024 * 1024) of
                     Inl e \<Rightarrow> ([], Inl e)
                   | Inr mb \<Rightarrow>
                       if int (output_size w attempt) \<le> TARGET_BYTES then
                         ([Notified (CompressionComplete mb)], Inr True)
                       else if attempt < MAX_ATTEMPTS then
                         (case corrective_bitrate video_bitrate (int (output_size w attempt)) of
                            Inl e \<Rightarrow> ([], Inl e)
                          | Inr new_bitrate \<Rightarrow>
                              if video_bitrate \<le> new_bitrate then
                                ([Notified (CannotReduceFurther mb)], Inr False)
                              else compress_loop w build (attempt + 1) new_bitrate (Some mb))
                       else compress_loop w build (attempt + 1) video_bitrate (Some mb)))))"
  by pat_completeness auto
termination
  by (relation "measure (\<lambda>(w, build, attempt, video_bitrate, size_mb). MAX_ATTEMPTS + 1 - attempt)")
     auto

definition compress_video :: "world \<Rightarrow> event list \<times> (py_error + bool)" where
  "compress_video w =
     (case get_video_info w of
        Inl e \<Rightarrow> ([], Inl e)
      | Inr None \<Rightarrow> ([Notified CouldNotAnalyze], Inr False)
      | Inr (Some info) \<Rightarrow>
          (case detect_encoder w of (codec, preset) \<Rightarrow>
             (case calculate_target_bitrate info of
                Inl e \<Rightarrow> ([], Inl e)
              | Inr video_bitrate \<Rightarrow>
                  compress_loop w
                    (encode_command (get_scale_filter info) codec preset (has_audio info))
                    1 video_bitrate None)))"

section \<open>Entry point\<close>

text \<open>\<open>not tool\<close> holds for \<open>None\<close> and for the empty string.\<close>

definition tool_missing :: "string option \<Rightarrow> bool" where
  "tool_missing tool = (case tool of None \<Rightarrow> True | Some p \<Rightarrow> p = [])"

text \<open>The exit code of the process, or the exception that ends it.\<close>

definition main :: "world \<Rightarrow> event list \<times> (py_error + int)" where
  "main w =
     (if length (argv w) < 2 then ([], Inr 0)
      else if \<not> isfile w (argv w ! 1) then ([Notified FileNotFound], Inr 1)
      else if tool_missing (locate_tool w ''ffmpeg'') \<or> tool_missing (locate_tool w ''ffprobe'')
        then ([Notified FFmpegNotFound], Inr 2)
      else
        emit (Notified Starting)
          (case compress_video w of
             (evs, Inl e) \<Rightarrow> (evs, Inl e)
           | (evs, Inr success) \<Rightarrow> (evs, Inr (if success then 0 else 3))))"

text \<open>The \<open>-b:v\<close> values of the encodes of a run, in order.\<close>

fun encoded_bitrates :: "event list \<Rightarrow> int list" where
  "encoded_bitrates [] = []"
| "encoded_bitrates (Encoded n cmd # evs) = b_v cmd # encoded_bitrates evs"
| "encoded_bitrates (Notified x # evs) = encoded_bitrates evs"

text \<open>The notifications by which \<open>compress_video\<close> reports a failure.\<close>

fun compression_failure :: "notification \<Rightarrow> bool" where
  "compression_failure CouldNotAnalyze = True"
| "compression_failure (EncodingFailed n) = True"
| "compression_failure OutputNotCreated = True"
| "compression_failure (CannotReduceFurther mb) = True"
| "compression_failure (TargetMissed mb) = True"
| "compression_failure x = False"

section \<open>Sample runs\<close>

text \<open>
  A world for concrete runs: the input file exists, both tools are on the path, \<open>ffprobe\<close>
  reports one video stream with the given duration and size and no audio stream, the
  encode always succeeds and the output of attempt \<open>n\<close> has \<open>sizes n\<close> bytes.
\<close>

definition scenario ::
  "json \<Rightarrow> int \<Rightarrow> int \<Rightarrow> py_error + string \<Rightarrow> (nat \<Rightarrow> nat) \<Rightarrow> world" where
  "scenario dur wd ht encoders sizes =
     \<lparr>argv = [''compress.py'', ''clip.mov''],
      isfile = (\<lambda>p. True),
      beside_interpreter = (\<lambda>name. None),
      which = (\<lambda>name. Some (''/usr/bin/'' @ name)),
      video_query = Inr (JObj [(''streams'',
          JArr [JObj [(''width'', JInt wd), (''height'', JInt ht), (''duration'', dur)]])]),
      audio_query = Inr (JObj []),
      str_to_float = (\<lambda>s. None),
      str_to_int = (\<lambda>s. None),
      encoders_query = encoders,
      print_raises = (\<lambda>m. None),
      encode_ok = (\<lambda>n cmd. True),
      output_exists = (\<lambda>n. True),
      output_size = sizes\<rparr>"

section \<open>Properties of the rounding\<close>

lemma quotient_of_pos:
  assumes "0 < x" "quotient_of x = (p, q)"
  shows "0 < p" "0 < q" "x = of_int p / of_int q"
proof -
  show q: "0 < q" using assms(2) quotient_of_denom_pos by blast
  show x: "x = of_int p / of_int q" using assms(2) quotient_of_div by blast
  show "0 < p" using assms(1) q x by (simp add: zero_less_divide_iff)
qed

lemma floorlog2_bounds_int:
  assumes "0 < (p::int)"
  shows "(2::rat) powi (int (floorlog 2 (nat p)) - 1) \<le> of_int p"
    and "of_int p < (2::rat) powi (int (floorlog 2 (nat p)))"
proof -
  have np: "0 < nat p" using assms by simp
  from floorlog_bounds[OF np, of 2]
  have lo: "2 ^ (floorlog 2 (nat p) - 1) \<le> nat p" and hi: "nat p < 2 ^ floorlog 2 (nat p)"
    by simp_all
  have "floorlog 2 (nat p) \<noteq> 0" using np by (simp add: floorlog_eq_zero_iff)
  then obtain n where n: "floorlog 2 (nat p) = Suc n" by (cases "floorlog 2 (nat p)") auto
  have pn: "of_int p = (of_nat (nat p) :: rat)" using assms by simp
  have "(of_nat (2 ^ n) :: rat) \<le> of_nat (nat p)"
    using lo unfolding n of_nat_le_iff by simp
  then have "(2::rat) ^ n \<le> of_int p" unfolding pn by simp
  moreover have "int (floorlog 2 (nat p)) - 1 = int n" unfolding n by simp
  ultimately show "(2::rat) powi (int (floorlog 2 (nat p)) - 1) \<le> of_int p"
    by (simp only: power_int_of_nat)
  have "(of_nat (nat p) :: rat) < of_nat (2 ^ Suc n)"
    using hi unfolding n of_nat_less_iff by simp
  then have "of_int p < (2::rat) ^ Suc n" unfolding pn by simp
  then show "of_int p < (2::rat) powi (int (floorlog 2 (nat p)))"
    unfolding n by (simp only: power_int_of_nat)
qed

lemma ilog2_bounds:
  assumes "0 < x"
  shows "2 powi (ilog2 x) \<le> x" and "x < 2 powi (ilog2 x + 1)"
proof -
  obtain p q where pq: "quotient_of x = (p, q)" by (cases "quotient_of x")
  note f = quotient_of_pos[OF assms pq]
  define k where "k = int (floorlog 2 (nat p)) - int (floorlog 2 (nat q))"
  have il: "ilog2 x = (if 2 powi k \<le> x then k else k - 1)"
    by (simp add: ilog2_def pq k_def)
  have qpos: "(0::rat) < of_int q" using f(2) by simp
  have pa: "(2::rat) powi a * 2 powi b = 2 powi (a + b)" for a b
    by (simp add: power_int_add)
  have plo: "(2::rat) powi (int (floorlog 2 (nat p)) - 1) \<le> of_int p"
    and phi: "of_int p < (2::rat) powi (int (floorlog 2 (nat p)))"
    using floorlog2_bounds_int[OF f(1)] by blast+
  have qlo: "(2::rat) powi (int (floorlog 2 (nat q)) - 1) \<le> of_int q"
    and qhi: "of_int q < (2::rat) powi (int (floorlog 2 (nat q)))"
    using floorlog2_bounds_int[OF f(2)] by blast+
  have lower: "2 powi (k - 1) \<le> x"
  proof -
    have "(2::rat) powi (k - 1) * of_int q \<le> 2 powi (k - 1) * 2 powi (int (floorlog 2 (nat q)))"
      using qhi by (intro mult_left_mono) auto
    also have "\<dots> = 2 powi (int (floorlog 2 (nat p)) - 1)"
    proof -
      have "k - 1 + int (floorlog 2 (nat q)) = int (floorlog 2 (nat p)) - 1"
        by (simp add: k_def)
      then show ?thesis by (simp only: pa)
    qed
    also have "\<dots> \<le> of_int p" by (rule plo)
    finally show ?thesis unfolding f(3) using qpos by (simp add: pos_le_divide_eq)
  qed
  have upper: "x < 2 powi (k + 1)"
  proof -
    have "of_int p < (2::rat) powi (int (floorlog 2 (nat p)))" by (rule phi)
    also have "\<dots> = 2 powi (k + 1) * 2 powi (int (floorlog 2 (nat q)) - 1)"
    proof -
      have "k + 1 + (int (floorlog 2 (nat q)) - 1) = int (floorlog 2 (nat p))"
        by (simp add: k_def)
      then show ?thesis by (simp only: pa)
    qed
    also have "\<dots> \<le> 2 powi (k + 1) * of_int q"
      using qlo by (intro mult_left_mono) auto
    finally show ?thesis unfolding f(3) using qpos by (simp add: pos_divide_less_eq)
  qed
  show "2 powi (ilog2 x) \<le> x" using lower by (simp add: il)
  show "x < 2 powi (ilog2 x + 1)" using upper by (auto simp add: il not_le)
qed

lemma pow2_less_cancel:
  assumes "(2::rat) powi a < 2 powi b"
  shows "a < b"
proof (rule ccontr)
  assume "\<not> a < b"
  then have "b \<le> a" by simp
  then have "(2::rat) powi b \<le> 2 powi a" by (intro power_int_increasing) auto
  with assms show False by simp
qed

lemma ilog2_unique:
  assumes "0 < x" "2 powi e \<le> x" "x < 2 powi (e + 1)"
  shows "ilog2 x = e"
proof -
  have "(2::rat) powi e < 2 powi (ilog2 x + 1)"
    using assms(2) ilog2_bounds(2)[OF assms(1)] by (rule le_less_trans)
  then have a: "e < ilog2 x + 1" by (rule pow2_less_cancel)
  have "(2::rat) powi (ilog2 x) < 2 powi (e + 1)"
    using ilog2_bounds(1)[OF assms(1)] assms(3) by (rule le_less_trans)
  then have b: "ilog2 x < e + 1" by (rule pow2_less_cancel)
  from a b show ?thesis by simp
qed

lemma floor_rat_numeral_div [simp]:
  "\<lfloor>(numeral a :: rat) / numeral b\<rfloor> = numeral a div numeral b"
  using floor_divide_of_int_eq[of "numeral a" "numeral b", where ?'a = rat] by simp

text \<open>Evaluating a rounding once the binary exponent of the argument is known.\<close>

lemma nearest_eval:
  assumes "0 < a" "2 powi e \<le> a" "a < 2 powi (e + 1)"
  shows "nearest a =
    of_int (round_half_even (a / 2 powi (max e (- 1022) - 52))) * 2 powi (max e (- 1022) - 52)"
  by (simp add: nearest_def ulp_exponent_def ilog2_unique[OF assms])

lemma round64_pos:
  assumes "0 < x" "2 powi e \<le> x" "x < 2 powi (e + 1)"
  shows "round64 x =
    (let r = of_int (round_half_even (x / 2 powi (max e (- 1022) - 52)))
               * 2 powi (max e (- 1022) - 52)
     in if 2 powi 1024 \<le> r then PInf else Finite r)"
  using assms(1) by (simp add: round64_def nearest_eval[OF assms] Let_def)

lemma SAFETY_MARGIN_value: "SAFETY_MARGIN = Finite (1080863910568919 / 36028797018963968)"
  unfolding SAFETY_MARGIN_def
  by (simp add: round64_pos[where e="-6"] round_half_even_def Let_def)

lemmas py_arith_defs =
  num_mul_def num_sub_def num_truediv_def to_float_def float_of_int_def fdiv_def
  math_floor_def ebind_def round_half_even_def Let_def

lemma keep_value:
  "num_sub (PyInt 1) (PyFloat SAFETY_MARGIN)
     = Inr (PyFloat (Finite (4368491638549381 / 4503599627370496)))"
  by (simp add: py_arith_defs SAFETY_MARGIN_value round64_pos[where e=0] round64_pos[where e="-1"])

lemma budget_value:
  "num_mul (PyInt TARGET_BITS) (PyFloat (Finite (4368491638549381 / 4503599627370496)))
     = Inr (PyFloat (Finite (4368491638549381 / 67108864)))"
  by (simp add: py_arith_defs TARGET_BITS_def TARGET_BYTES_def
        round64_pos[where e=26] round64_pos[where e=25])

lemma calculate_target_bitrate_budget:
  "calculate_target_bitrate info =
     ebind (if has_audio info
            then num_mul (PyInt AUDIO_BITRATE) (PyFloat (duration info))
            else Inr (PyInt 0)) (\<lambda>audio_bits.
     ebind (num_sub (PyFloat (Finite (4368491638549381 / 67108864))) audio_bits) (\<lambda>available_bits.
     ebind (num_truediv available_bits (PyFloat (duration info))) (\<lambda>video_bitrate.
     ebind (num_truediv video_bitrate (PyInt 1000)) (\<lambda>thousands.
     ebind (math_floor thousands) (\<lambda>floored.
     Inr (max MIN_VIDEO_BITRATE (floored * 1000)))))))"
  unfolding calculate_target_bitrate_def keep_value
  by (simp add: ebind_def budget_value)

lemma thousand_float: "float_of_int 1000 = Inr (Finite 1000)"
  by (simp add: py_arith_defs round64_pos[where e=9])

lemma planner_60s_audio:
  "calculate_target_bitrate
       \<lparr>duration = Finite 60, has_audio = True, width = w, height = h, bitrate = b\<rparr>
     = Inr 988000"
  unfolding calculate_target_bitrate_budget
  by (simp add: py_arith_defs AUDIO_BITRATE_def MIN_VIDEO_BITRATE_def
       round64_pos[where e=16] round64_pos[where e=22] round64_pos[where e=25]
       round64_pos[where e=19] round64_pos[where e=9])

lemma ebind_Inr_iff: "ebind m f = Inr v \<longleftrightarrow> (\<exists>x. m = Inr x \<and> f x = Inr v)"
  by (cases m) (simp_all add: ebind_def)

section \<open>The claims\<close>

subsection \<open>C9: the planned bitrate is a multiple of 1000\<close>

text \<open>
  Claim C9. Whatever the metadata, a value returned by \<open>calculate_target_bitrate\<close> is an
  exact integer multiple of 1000: it is either the floor \<open>MIN_VIDEO_BITRATE = 80000\<close> or
  \<open>math.floor(video_bitrate / 1000) * 1000\<close>, an int product. This holds in particular for
  every duration \<open>> 0\<close>.
\<close>

theorem calculate_target_bitrate_multiple_of_1000:
  "calculate_target_bitrate info = Inr v \<Longrightarrow> 1000 dvd v"
  unfolding calculate_target_bitrate_def ebind_Inr_iff
  by (auto simp: MIN_VIDEO_BITRATE_def max_def)

theorem calculate_target_bitrate_multiple_of_1000_witness:
  "calculate_target_bitrate
       \<lparr>duration = Finite 60, has_audio = True, width = 1920, height = 1080, bitrate = 0\<rparr>
     = Inr 988000 \<and> (1000 :: int) dvd 988000"
  using calculate_target_bitrate_multiple_of_1000
          [OF planner_60s_audio [of 1920 1080 0]] planner_60s_audio [of 1920 1080 0]
  by simp

subsection \<open>C4: the 60 second scenario\<close>

text \<open>
  Claim C4 states that for a 60 second source with audio the planner returns 989,000
  bits/s, through \<open>availableBits = 59,395,522\<close>. The code does not: with
  \<open>TARGET_BITS = 67,108,864\<close> the budget after the margin is \<open>65,095,598.08\<close>, so
  \<open>availableBits = 59,335,598.08\<close> and the result is 988,000.
\<close>

theorem planner_60s_not_989000:
  "calculate_target_bitrate
       \<lparr>duration = Finite 60, has_audio = True, width = 1920, height = 1080, bitrate = 0\<rparr>
     \<noteq> Inr 989000"
  by (simp add: planner_60s_audio)

text \<open>
  Claim C4, amended. For a source with duration 60 seconds and audio present the planner
  returns exactly 988,000 bits/s: \<open>audioBits = 5,760,000\<close>, the budget
  \<open>TARGET_BITS * (1 - SAFETY_MARGIN)\<close> is the float \<open>65,095,598.08\<close>, \<open>availableBits\<close> is
  the float \<open>59,335,598.08\<close>, and \<open>floor(59,335,598.08 / 60 / 1000) * 1000 = 988,000\<close>.
\<close>

theorem planner_60s_returns_988000:
  "num_mul (PyInt AUDIO_BITRATE) (PyFloat (Finite 60)) = Inr (PyFloat (Finite 5760000))
   \<and> ebind (num_sub (PyInt 1) (PyFloat SAFETY_MARGIN)) (num_mul (PyInt TARGET_BITS))
       = Inr (PyFloat (Finite (4368491638549381 / 67108864)))
   \<and> num_sub (PyFloat (Finite (4368491638549381 / 67108864))) (PyFloat (Finite 5760000))
       = Inr (PyFloat (Finite (3981944581909381 / 67108864)))
   \<and> \<lfloor>(3981944581909381 / 67108864 :: rat)\<rfloor> = 59335598
   \<and> calculate_target_bitrate
         \<lparr>duration = Finite 60, has_audio = True, width = w, height = h, bitrate = b\<rparr>
       = Inr 988000"
proof (intro conjI)
  show "num_mul (PyInt AUDIO_BITRATE) (PyFloat (Finite 60)) = Inr (PyFloat (Finite 5760000))"
    by (simp add: py_arith_defs AUDIO_BITRATE_def round64_pos[where e=16]
          round64_pos[where e=22])
  show "ebind (num_sub (PyInt 1) (PyFloat SAFETY_MARGIN)) (num_mul (PyInt TARGET_BITS))
       = Inr (PyFloat (Finite (4368491638549381 / 67108864)))"
    by (simp add: keep_value budget_value ebind_def)
  show "num_sub (PyFloat (Finite (4368491638549381 / 67108864))) (PyFloat (Finite 5760000))
       = Inr (PyFloat (Finite (3981944581909381 / 67108864)))"
    by (simp add: py_arith_defs round64_pos[where e=25])
  show "\<lfloor>(3981944581909381 / 67108864 :: rat)\<rfloor> = 59335598"
    by simp
  show "calculate_target_bitrate
         \<lparr>duration = Finite 60, has_audio = True, width = w, height = h, bitrate = b\<rparr>
       = Inr 988000"
    by (rule planner_60s_audio)
qed

subsection \<open>C8: the encoder selector never fails\<close>

lemma first_available_found:
  "first_available w available ps = Inr (Some found) \<Longrightarrow> found \<in> set ps"
  by (induction ps) (auto split: if_splits option.splits)

lemma first_available_none:
  "\<forall>(codec, preset) \<in> set ps. \<not> str_contains codec available
     \<Longrightarrow> first_available w available ps = Inr None"
  by (induction ps) auto

text \<open>
  Claim C8. \<open>detect_encoder\<close> returns a pair of \<open>ENCODER_PRIORITY\<close> for every answer of
  the capability query and every behaviour of \<open>print\<close>: no exception leaves it. When the
  query raises, or when its output contains none of the prioritised codec names, the pair
  is the software fallback \<open>(libx265, veryfast)\<close>.
\<close>

theorem detect_encoder_never_fails:
  "detect_encoder w \<in> set ENCODER_PRIORITY
   \<and> (\<forall>e. encoders_query w = Inl e \<longrightarrow> detect_encoder w = (''libx265'', ''veryfast''))
   \<and> (\<forall>available. encoders_query w = Inr available
          \<and> (\<forall>(codec, preset) \<in> set ENCODER_PRIORITY. \<not> str_contains codec available)
        \<longrightarrow> detect_encoder w = (''libx265'', ''veryfast''))"
proof (intro conjI allI impI)
  show "detect_encoder w \<in> set ENCODER_PRIORITY"
  proof (cases "ebind (encoders_query w) (\<lambda>available. first_available w available ENCODER_PRIORITY)")
    case (Inl e)
    then show ?thesis by (simp add: detect_encoder_def ENCODER_PRIORITY_def)
  next
    case (Inr r)
    show ?thesis
    proof (cases r)
      case None
      with Inr show ?thesis by (simp add: detect_encoder_def ENCODER_PRIORITY_def)
    next
      case (Some found)
      with Inr obtain available where "first_available w available ENCODER_PRIORITY = Inr (Some found)"
        by (auto simp: ebind_Inr_iff)
      then have "found \<in> set ENCODER_PRIORITY" by (rule first_available_found)
      with Inr Some show ?thesis by (simp add: detect_encoder_def)
    qed
  qed
next
  fix e assume "encoders_query w = Inl e"
  then show "detect_encoder w = (''libx265'', ''veryfast'')"
    by (simp add: detect_encoder_def ebind_def)
next
  fix available
  assume a: "encoders_query w = Inr available
     \<and> (\<forall>(codec, preset) \<in> set ENCODER_PRIORITY. \<not> str_contains codec available)"
  then have "first_available w available ENCODER_PRIORITY = Inr None"
    by (intro first_available_none) simp
  with a show "detect_encoder w = (''libx265'', ''veryfast'')"
    by (simp add: detect_encoder_def ebind_def)
qed

theorem detect_encoder_never_fails_witness:
  "encoders_query (scenario (JFloat (Finite 60)) 1280 720 (Inl OSError) (\<lambda>n. 0)) = Inl OSError
   \<and> detect_encoder (scenario (JFloat (Finite 60)) 1280 720 (Inl OSError) (\<lambda>n. 0))
       = (''libx265'', ''veryfast'')
   \<and> encoders_query (scenario (JFloat (Finite 60)) 1280 720 (Inr ''V..... mpeg4'') (\<lambda>n. 0))
       = Inr ''V..... mpeg4''
   \<and> (\<forall>(codec, preset) \<in> set ENCODER_PRIORITY. \<not> str_contains codec ''V..... mpeg4'')
   \<and> detect_encoder (scenario (JFloat (Finite 60)) 1280 720 (Inr ''V..... mpeg4'') (\<lambda>n. 0))
       = (''libx265'', ''veryfast'')"
  using detect_encoder_never_fails
          [of "scenario (JFloat (Finite 60)) 1280 720 (Inl OSError) (\<lambda>n. 0)"]
        detect_encoder_never_fails
          [of "scenario (JFloat (Finite 60)) 1280 720 (Inr ''V..... mpeg4'') (\<lambda>n. 0)"]
  by (simp add: scenario_def ENCODER_PRIORITY_def)

subsection \<open>The convergence loop\<close>

declare compress_loop.simps [simp del]

lemma encoded_bitrates_emit [simp]:
  "encoded_bitrates (fst (emit (Encoded n cmd) r)) = b_v cmd # encoded_bitrates (fst r)"
  by (simp add: emit_def)

lemma compress_loop_encode_count:
  "length (encoded_bitrates (fst (compress_loop w build attempt video_bitrate size_mb)))
     \<le> MAX_ATTEMPTS + 1 - attempt"
proof (induction w build attempt video_bitrate size_mb rule: compress_loop.induct)
  case (1 w build attempt video_bitrate size_mb)
  show ?case
    apply (subst compress_loop.simps)
    using 1
    apply (auto split: option.splits sum.splits simp: Suc_diff_le)
    done
qed

lemma encode_command_b_v:
  "encode_command sf c p a video_bitrate = Inr cmd \<Longrightarrow> b_v cmd = video_bitrate"
  by (auto simp: encode_command_def ebind_Inr_iff)

lemma corrective_bitrate_min:
  "corrective_bitrate video_bitrate out_size = Inr new_bitrate
     \<Longrightarrow> MIN_VIDEO_BITRATE \<le> new_bitrate"
  by (auto simp: corrective_bitrate_def ebind_Inr_iff)

lemma calculate_target_bitrate_min:
  "calculate_target_bitrate info = Inr video_bitrate \<Longrightarrow> MIN_VIDEO_BITRATE \<le> video_bitrate"
  by (auto simp: calculate_target_bitrate_def ebind_Inr_iff)

lemma compress_loop_after_last:
  "MAX_ATTEMPTS < attempt
     \<Longrightarrow> encoded_bitrates (fst (compress_loop w build attempt video_bitrate size_mb)) = []"
  using compress_loop_encode_count [of w build attempt video_bitrate size_mb]
  by simp

lemma compress_loop_unfold:
  "encoded_bitrates (fst (compress_loop w build attempt video_bitrate size_mb)) = []
   \<or> (\<exists>cmd. build video_bitrate = Inr cmd \<and> attempt \<le> MAX_ATTEMPTS
         \<and> encoded_bitrates (fst (compress_loop w build attempt video_bitrate size_mb))
             = [b_v cmd])
   \<or> (\<exists>cmd new_bitrate mb.
         build video_bitrate = Inr cmd \<and> attempt < MAX_ATTEMPTS
         \<and> corrective_bitrate video_bitrate (int (output_size w attempt)) = Inr new_bitrate
         \<and> new_bitrate < video_bitrate
         \<and> encoded_bitrates (fst (compress_loop w build attempt video_bitrate size_mb))
             = b_v cmd
               # encoded_bitrates (fst (compress_loop w build (attempt + 1) new_bitrate mb)))"
  apply (subst (1 2 3) compress_loop.simps)
  apply (auto split: option.splits sum.splits simp: compress_loop_after_last)
  done


lemma compress_loop_bitrates:
  assumes build: "\<And>v cmd. build v = Inr cmd \<Longrightarrow> b_v cmd = v"
  shows "MIN_VIDEO_BITRATE \<le> video_bitrate \<Longrightarrow>
         (\<forall>b \<in> set (encoded_bitrates (fst (compress_loop w build attempt video_bitrate size_mb))).
            MIN_VIDEO_BITRATE \<le> b \<and> b \<le> video_bitrate)
         \<and> sorted_wrt (\<lambda>x y. y < x)
              (encoded_bitrates (fst (compress_loop w build attempt video_bitrate size_mb)))"
proof (induction "MAX_ATTEMPTS + 1 - attempt" arbitrary: attempt video_bitrate size_mb)
  case 0
  then have "MAX_ATTEMPTS < attempt" by simp
  then show ?case by (simp add: compress_loop_after_last)
next
  case (Suc k)
  let ?bs = "encoded_bitrates (fst (compress_loop w build attempt video_bitrate size_mb))"
  from compress_loop_unfold [of w build attempt video_bitrate size_mb]
  consider (none) "?bs = []"
    | (one) cmd where "build video_bitrate = Inr cmd" "?bs = [b_v cmd]"
    | (more) cmd new_bitrate mb where "build video_bitrate = Inr cmd"
        "attempt < MAX_ATTEMPTS"
        "corrective_bitrate video_bitrate (int (output_size w attempt)) = Inr new_bitrate"
        "new_bitrate < video_bitrate"
        "?bs = b_v cmd # encoded_bitrates (fst (compress_loop w build (attempt + 1) new_bitrate mb))"
    by blast
  then show ?case
  proof cases
    case none
    then show ?thesis by simp
  next
    case one
    then show ?thesis using build Suc.prems by simp
  next
    case more
    have k: "k = MAX_ATTEMPTS + 1 - (attempt + 1)" using Suc.hyps(2) by simp
    have m: "MIN_VIDEO_BITRATE \<le> new_bitrate" using more(3) by (rule corrective_bitrate_min)
    note ih = Suc.hyps(1) [OF k m, of mb]
    show ?thesis
      unfolding more(5) using ih build [OF more(1)] more(4) Suc.prems
      by (auto simp: less_le_trans dest: bspec)
  qed
qed

subsection \<open>Evaluating roundings of numerals\<close>

lemma floorlog2_one [simp]: "floorlog 2 1 = 1"
  by (subst compute_floorlog) (simp add: floorlog_eq_zero_iff)

lemma floorlog2_Suc0 [simp]: "floorlog 2 (Suc 0) = 1"
  by (subst compute_floorlog) (simp add: floorlog_eq_zero_iff)

lemma floorlog2_Bit0 [simp]:
  "floorlog 2 (numeral (Num.Bit0 n)) = Suc (floorlog 2 (numeral n))"
  by (subst compute_floorlog) simp

lemma floorlog2_Bit1 [simp]:
  "floorlog 2 (numeral (Num.Bit1 n)) = Suc (floorlog 2 (numeral n))"
  by (subst compute_floorlog) simp

lemma ilog2_quotient:
  assumes "0 < a" "0 < b"
  shows "ilog2 (of_int a / of_int b) =
     (let k = int (floorlog 2 (nat a)) - int (floorlog 2 (nat b))
      in if 2 powi k \<le> (of_int a / of_int b :: rat) then k else k - 1)"
proof -
  define k where "k = int (floorlog 2 (nat a)) - int (floorlog 2 (nat b))"
  define x :: rat where "x = of_int a / of_int b"
  have bpos: "(0::rat) < of_int b" using assms(2) by simp
  have xpos: "0 < x" using assms by (simp add: x_def)
  have pa: "(2::rat) powi i * 2 powi j = 2 powi (i + j)" for i j
    by (simp add: power_int_add)
  note fa = floorlog2_bounds_int[OF assms(1)] and fb = floorlog2_bounds_int[OF assms(2)]
  have lower: "2 powi (k - 1) \<le> x"
  proof -
    have "(2::rat) powi (k - 1) * of_int b \<le> 2 powi (k - 1) * 2 powi (int (floorlog 2 (nat b)))"
      using fb(2) by (intro mult_left_mono) auto
    also have "\<dots> = 2 powi (int (floorlog 2 (nat a)) - 1)"
    proof -
      have "k - 1 + int (floorlog 2 (nat b)) = int (floorlog 2 (nat a)) - 1"
        by (simp add: k_def)
      then show ?thesis by (simp only: pa)
    qed
    also have "\<dots> \<le> of_int a" by (rule fa(1))
    finally show ?thesis unfolding x_def using bpos by (simp add: pos_le_divide_eq)
  qed
  have upper: "x < 2 powi (k + 1)"
  proof -
    have "of_int a < (2::rat) powi (int (floorlog 2 (nat a)))" by (rule fa(2))
    also have "\<dots> = 2 powi (k + 1) * 2 powi (int (floorlog 2 (nat b)) - 1)"
    proof -
      have "k + 1 + (int (floorlog 2 (nat b)) - 1) = int (floorlog 2 (nat a))"
        by (simp add: k_def)
      then show ?thesis by (simp only: pa)
    qed
    also have "\<dots> \<le> 2 powi (k + 1) * of_int b"
      using fb(1) by (intro mult_left_mono) auto
    finally show ?thesis unfolding x_def using bpos by (simp add: pos_divide_less_eq)
  qed
  have "ilog2 x = (if 2 powi k \<le> x then k else k - 1)"
  proof (cases "2 powi k \<le> x")
    case True
    then show ?thesis using ilog2_unique[OF xpos True upper] by simp
  next
    case False
    then have "x < 2 powi (k - 1 + 1)" by simp
    from ilog2_unique[OF xpos lower this] False show ?thesis by simp
  qed
  then show ?thesis by (simp add: x_def k_def Let_def)
qed

lemma ilog2_numeral_div [simp]:
  "ilog2 (numeral a / numeral b) =
     (let k = int (floorlog 2 (numeral a)) - int (floorlog 2 (numeral b))
      in if 2 powi k \<le> (numeral a / numeral b :: rat) then k else k - 1)"
  using ilog2_quotient[of "numeral a" "numeral b"] by simp

lemma ilog2_numeral [simp]:
  "ilog2 (numeral a) = int (floorlog 2 (numeral a)) - 1"
  using ilog2_quotient[of "numeral a" 1] floorlog2_bounds_int(1)[of "numeral a"]
  by (simp add: Let_def)

lemma ilog2_one_div [simp]:
  "ilog2 (1 / numeral b) =
     (let k = 1 - int (floorlog 2 (numeral b))
      in if 2 powi k \<le> (1 / numeral b :: rat) then k else k - 1)"
  using ilog2_quotient[of 1 "numeral b"] by simp

lemma ilog2_one [simp]: "ilog2 1 = 0"
  using ilog2_quotient[of 1 1] by simp

lemmas round64_eval =
  round64_def nearest_def ulp_exponent_def round_half_even_def Let_def

subsection \<open>Concrete runs\<close>


lemmas py_eval =
  num_mul_def num_sub_def num_truediv_def to_float_def float_of_int_def fdiv_def
  int_truediv_def math_floor_def py_int_def ebind_def round64_eval

lemma scenario_probe:
  assumes "0 < d"
  shows "get_video_info (scenario (JFloat (Finite d)) wd ht encoders sizes)
     = Inr (Some \<lparr>duration = Finite d, has_audio = False, width = wd, height = ht, bitrate = 0\<rparr>)"
  using assms
  by (simp add: get_video_info_def probe_body_def probed_duration_def scenario_def
        ebind_def eand_def float_truthy_def)

lemma planner_1000s_silent:
  "calculate_target_bitrate
       \<lparr>duration = Finite 1000, has_audio = False, width = w, height = h, bitrate = b\<rparr>
     = Inr 80000"
  unfolding calculate_target_bitrate_budget
  by (simp add: py_eval MIN_VIDEO_BITRATE_def)

lemma corrective_80000_10MiB: "corrective_bitrate 80000 10485760 = Inr 80000"
  by (simp add: corrective_bitrate_def py_eval TARGET_BYTES_def MIN_VIDEO_BITRATE_def)

lemma encode_command_80000:
  "encode_command sf c p a 80000
     = Inr \<lparr>vf = sf, c_v = c, preset_v = p, audio = a, b_v = 80000, maxrate = 120000,
            bufsize = 160000\<rparr>"
  by (simp add: encode_command_def py_eval)

lemma size_mb_10MiB: "int_truediv 10485760 1048576 = Inr (Finite 10)"
  by (simp add: py_eval)



lemma planner_60s_silent:
  "calculate_target_bitrate
       \<lparr>duration = Finite 60, has_audio = False, width = w, height = h, bitrate = b\<rparr>
     = Inr 1084000"
  unfolding calculate_target_bitrate_budget
  by (simp add: py_eval MIN_VIDEO_BITRATE_def)

lemma scenario_fields [simp]:
  "encode_ok (scenario dur wd ht encoders sizes) n cmd"
  "output_exists (scenario dur wd ht encoders sizes) n"
  "output_size (scenario dur wd ht encoders sizes) n = sizes n"
  "encoders_query (scenario dur wd ht encoders sizes) = encoders"
  by (simp_all add: scenario_def)

lemma detect_encoder_query_failed:
  "encoders_query w = Inl e \<Longrightarrow> detect_encoder w = (''libx265'', ''veryfast'')"
  by (simp add: detect_encoder_def ebind_def)

lemma compress_loop_past:
  "MAX_ATTEMPTS < attempt \<Longrightarrow>
   compress_loop w build attempt video_bitrate size_mb =
     (case size_mb of
        None \<Rightarrow> ([], Inl UnboundLocalError)
      | Some mb \<Rightarrow> ([Notified (TargetMissed mb)], Inr False))"
  by (subst compress_loop.simps) simp

lemma compress_loop_attempt:
  "attempt \<le> MAX_ATTEMPTS \<Longrightarrow>
   compress_loop w build attempt video_bitrate size_mb =
     (case build video_bitrate of
        Inl e \<Rightarrow> ([], Inl e)
      | Inr cmd \<Rightarrow>
          emit (Encoded attempt cmd)
            (if \<not> encode_ok w attempt cmd then
               ([Notified (EncodingFailed attempt)], Inr False)
             else if \<not> output_exists w attempt then
               ([Notified OutputNotCreated], Inr False)
             else
               (case int_truediv (int (output_size w attempt)) (1024 * 1024) of
                  Inl e \<Rightarrow> ([], Inl e)
                | Inr mb \<Rightarrow>
                    if int (output_size w attempt) \<le> TARGET_BYTES then
                      ([Notified (CompressionComplete mb)], Inr True)
                    else if attempt < MAX_ATTEMPTS then
                      (case corrective_bitrate video_bitrate (int (output_size w attempt)) of
                         Inl e \<Rightarrow> ([], Inl e)
                       | Inr new_bitrate \<Rightarrow>
                           if video_bitrate \<le> new_bitrate then
                             ([Notified (CannotReduceFurther mb)], Inr False)
                           else compress_loop w build (attempt + 1) new_bitrate (Some mb))
                    else compress_loop w build (attempt + 1) video_bitrate (Some mb))))"
  by (subst compress_loop.simps) simp

lemma run_no_progress:
  "compress_video (scenario (JFloat (Finite 1000)) 1280 720 (Inl OSError) (\<lambda>n. 10485760))
     = ([Encoded 1 \<lparr>vf = ''scale=trunc(iw/2)*2:trunc(ih/2)*2'', c_v = ''libx265'',
                     preset_v = ''veryfast'', audio = False, b_v = 80000, maxrate = 120000,
                     bufsize = 160000\<rparr>,
         Notified (CannotReduceFurther (Finite 10))], Inr False)"
  by (simp add: compress_video_def scenario_probe planner_1000s_silent
        detect_encoder_query_failed get_scale_filter_def compress_loop_past compress_loop_attempt
        MAX_ATTEMPTS_def encode_command_80000 emit_def size_mb_10MiB TARGET_BYTES_def
        corrective_80000_10MiB)

lemma run_three_attempts:
  "compress_video (scenario (JFloat (Finite 60)) 1280 720 (Inl OSError) (\<lambda>n. 10485760))
     = ([Encoded 1 \<lparr>vf = ''scale=trunc(iw/2)*2:trunc(ih/2)*2'', c_v = ''libx265'',
                     preset_v = ''veryfast'', audio = False, b_v = 1084000, maxrate = 1626000,
                     bufsize = 2168000\<rparr>,
         Encoded 2 \<lparr>vf = ''scale=trunc(iw/2)*2:trunc(ih/2)*2'', c_v = ''libx265'',
                     preset_v = ''veryfast'', audio = False, b_v = 823840, maxrate = 1235760,
                     bufsize = 1647680\<rparr>,
         Encoded 3 \<lparr>vf = ''scale=trunc(iw/2)*2:trunc(ih/2)*2'', c_v = ''libx265'',
                     preset_v = ''veryfast'', audio = False, b_v = 626118, maxrate = 939177,
                     bufsize = 1252236\<rparr>,
         Notified (TargetMissed (Finite 10))], Inr False)"
  by (simp add: compress_video_def scenario_probe planner_60s_silent
        detect_encoder_query_failed get_scale_filter_def
        compress_loop_past compress_loop_attempt
        MAX_ATTEMPTS_def emit_def size_mb_10MiB TARGET_BYTES_def
        encode_command_def corrective_bitrate_def py_eval MIN_VIDEO_BITRATE_def)

subsection \<open>Outcome of a run\<close>

lemma compress_loop_report:
  "Notified x \<in> set (fst (compress_loop w build attempt video_bitrate size_mb))
     \<Longrightarrow> snd (compress_loop w build attempt video_bitrate size_mb)
           = Inr (\<not> compression_failure x)"
proof (induction "MAX_ATTEMPTS + 1 - attempt" arbitrary: attempt video_bitrate size_mb)
  case 0
  then have "MAX_ATTEMPTS < attempt" by simp
  with 0(2) show ?case by (auto simp: compress_loop_past split: option.splits)
next
  case (Suc k)
  then have le: "attempt \<le> MAX_ATTEMPTS" by simp
  have k: "k = MAX_ATTEMPTS + 1 - (attempt + 1)" using Suc.hyps(2) by simp
  note ih = Suc.hyps(1) [OF k]
  show ?case
    using Suc.prems ih
    by (auto simp: compress_loop_attempt [OF le] emit_def split: sum.splits if_splits)
qed

lemma compress_video_report:
  "Notified x \<in> set (fst (compress_video w))
     \<Longrightarrow> snd (compress_video w) = Inr (\<not> compression_failure x)"
  by (auto simp: compress_video_def compress_loop_report split: sum.splits option.splits prod.splits)

end
